theory Spec2Isabelle
  imports Complex_Main "HOL-Library.Multiset" "HOL-Library.Word"
begin

section \<open>Geometry and scoring (gameService: calculateDistance, toRad, calculateScore)\<close>

text \<open>
  A JavaScript number is modelled as a real: the arithmetic of the source is read in exact
  real arithmetic, \<open>Math.sin\<close>, \<open>Math.cos\<close>, \<open>Math.sqrt\<close>, \<open>Math.exp\<close> as the
  functions they approximate. \<open>NaN\<close> and the infinities have no counterpart here.
\<close>

text \<open>
  \<open>Math.atan2(y, x)\<close>, the angle of the point \<open>(x, y)\<close> in \<open>(-pi, pi]\<close>, as ECMAScript
  specifies it on finite arguments.
\<close>

definition atan2 :: "real \<Rightarrow> real \<Rightarrow> real" where
  "atan2 y x =
     (if 0 < x then arctan (y / x)
      else if x < 0 then (if 0 \<le> y then arctan (y / x) + pi else arctan (y / x) - pi)
      else if 0 < y then pi / 2
      else if y < 0 then - (pi / 2)
      else 0)"

definition toRad :: "real \<Rightarrow> real" where
  "toRad degrees = degrees * (pi / 180)"

definition calculateDistance :: "real \<Rightarrow> real \<Rightarrow> real \<Rightarrow> real \<Rightarrow> real" where
  "calculateDistance lat1 lon1 lat2 lon2 =
     (let R = 6371;
          dLat = toRad (lat2 - lat1);
          dLon = toRad (lon2 - lon1);
          a = sin (dLat / 2) * sin (dLat / 2) +
              cos (toRad lat1) * cos (toRad lat2) *
              sin (dLon / 2) * sin (dLon / 2);
          c = 2 * atan2 (sqrt a) (sqrt (1 - a));
          distance = R * c
      in distance)"

text \<open>\<open>Math.round\<close> is \<open>floor (x + 0.5)\<close>, which is \<^const>\<open>round\<close>.\<close>

definition calculateScore :: "real \<Rightarrow> real \<Rightarrow> real \<Rightarrow> real \<Rightarrow> int" where
  "calculateScore actualLat actualLon guessLat guessLon =
     (let distance = calculateDistance actualLat actualLon guessLat guessLon;
          maxScore = 5000;
          perfectRadius = 500
      in if distance \<le> perfectRadius then maxScore
         else let adjustedDistance = distance - perfectRadius;
                  score = round (real_of_int maxScore * exp (- adjustedDistance / 2500))
              in max 0 score)"



section \<open>JavaScript values\<close>

text \<open>
  The values that \<open>JSON.parse\<close> produces, and \<open>undefined\<close>. The fields of an object are
  an association list in the order in which \<open>for ... in\<close> enumerates them; a key occurs
  once, and a lookup takes the first entry.
\<close>

datatype jsval =
    JUndefined
  | JNull
  | JBool bool
  | JNum real
  | JStr string
  | JArr "jsval list"
  | JObj "(string \<times> jsval) list"

text \<open>Truthiness: \<open>undefined\<close>, \<open>null\<close>, \<open>false\<close>, \<open>0\<close> and \<open>""\<close> are falsy.\<close>

fun truthy :: "jsval \<Rightarrow> bool" where
  "truthy JUndefined = False"
| "truthy JNull = False"
| "truthy (JBool b) = b"
| "truthy (JNum x) = (x \<noteq> 0)"
| "truthy (JStr s) = (s \<noteq> [])"
| "truthy (JArr xs) = True"
| "truthy (JObj kvs) = True"

text \<open>\<open>a || b\<close>\<close>

definition js_or :: "jsval \<Rightarrow> jsval \<Rightarrow> jsval" where
  "js_or a b = (if truthy a then a else b)"

text \<open>\<open>Array.isArray(x)\<close>\<close>

fun isArray :: "jsval \<Rightarrow> bool" where
  "isArray (JArr xs) = True"
| "isArray v = False"

text \<open>\<open>typeof x === 'object'\<close>, which holds of \<open>null\<close> and of arrays too.\<close>

fun typeof_object :: "jsval \<Rightarrow> bool" where
  "typeof_object JNull = True"
| "typeof_object (JArr xs) = True"
| "typeof_object (JObj kvs) = True"
| "typeof_object v = False"

text \<open>
  \<open>x.k\<close> for one of the field names the program reads, on a value that is neither
  \<open>null\<close> nor \<open>undefined\<close>: the field of an object, \<open>undefined\<close> when it is absent
  and on arrays and primitive values.
\<close>

fun getProp :: "jsval \<Rightarrow> string \<Rightarrow> jsval" where
  "getProp (JObj kvs) k = (case map_of kvs k of Some v \<Rightarrow> v | None \<Rightarrow> JUndefined)"
| "getProp v k = JUndefined"

text \<open>\<open>x[i]\<close> on an array: \<open>undefined\<close> beyond its length.\<close>

fun getIndex :: "jsval \<Rightarrow> nat \<Rightarrow> jsval" where
  "getIndex (JArr xs) i = (if i < length xs then xs ! i else JUndefined)"
| "getIndex v i = JUndefined"

section \<open>Balloon feed (gameService: extractCoordinates)\<close>

text \<open>
  \<open>BalloonData\<close>. The field \<open>id\<close> is declared a string, but the object branch of
  \<open>extractCoordinates\<close> stores whatever truthy value the entry carries, and \<open>alt\<close>
  likewise: both are JavaScript values here.
\<close>

record BalloonData =
  lat :: real
  lon :: real
  alt :: jsval
  id' :: jsval

definition extractCoordinates :: "jsval \<Rightarrow> string \<Rightarrow> BalloonData option" where
  "extractCoordinates item ident =
     (if \<not> truthy item then None
      else
        (case
           (if isArray item then
              (case (getIndex item 0, getIndex item 1) of
                 (JNum lat', JNum lon') \<Rightarrow>
                   if - 90 \<le> lat' \<and> lat' \<le> 90 \<and> - 180 \<le> lon' \<and> lon' \<le> 180
                   then Some \<lparr> lat = lat', lon = lon',
                               alt = (case getIndex item 2 of JNum a \<Rightarrow> JNum a | _ \<Rightarrow> JUndefined),
                               id' = JStr ident \<rparr>
                   else None
               | _ \<Rightarrow> None)
            else None)
         of
           Some balloon \<Rightarrow> Some balloon
         | None \<Rightarrow>
             if typeof_object item then
               (case (js_or (js_or (js_or (getProp item ''lat'') (getProp item ''latitude''))
                               (getProp item ''Lat'')) (getProp item ''Latitude''),
                      js_or (js_or (js_or (js_or (getProp item ''lon'') (getProp item ''lng''))
                               (getProp item ''longitude'')) (getProp item ''Lon''))
                               (getProp item ''Longitude''))
                of
                  (JNum lat', JNum lon') \<Rightarrow>
                    if - 90 \<le> lat' \<and> lat' \<le> 90 \<and> - 180 \<le> lon' \<and> lon' \<le> 180
                    then Some \<lparr> lat = lat', lon = lon',
                                alt = js_or (js_or (js_or (getProp item ''alt'') (getProp item ''altitude''))
                                         (getProp item ''Alt'')) (getProp item ''Altitude''),
                                id' = js_or (js_or (js_or (getProp item ''id'') (getProp item ''ID''))
                                         (getProp item ''balloon_id'')) (JStr ident) \<rparr>
                    else None
                | _ \<Rightarrow> None)
             else None))"

section \<open>Guess submission (routes/balloon: POST /game/guess)\<close>

datatype response = Response (status: nat) (payload: jsval)

text \<open>
  The handler takes \<open>req.body\<close>. Destructuring \<open>null\<close> or \<open>undefined\<close> throws, and the
  \<open>catch\<close> answers 500. \<open>getWeatherData\<close> is not part of the sources at hand: it is the
  parameter \<open>getWeatherData\<close>, \<open>None\<close> when its promise is rejected. When the four
  fields are truthy but not all numbers, JavaScript coerces them inside the arithmetic of
  \<open>calculateScore\<close>; that answer is the parameter \<open>coerced\<close>.
\<close>

definition guess_handler ::
  "(real \<Rightarrow> real \<Rightarrow> jsval option) \<Rightarrow> (jsval \<Rightarrow> jsval \<Rightarrow> jsval \<Rightarrow> jsval \<Rightarrow> response) \<Rightarrow> jsval \<Rightarrow> response"
where
  "guess_handler getWeatherData coerced body =
     (if body = JUndefined \<or> body = JNull
      then Response 500 (JObj [(''error'', JStr ''Failed to calculate score'')])
      else
        let actualLat = getProp body ''actualLat'';
            actualLon = getProp body ''actualLon'';
            guessLat = getProp body ''guessLat'';
            guessLon = getProp body ''guessLon''
        in if \<not> truthy actualLat \<or> \<not> truthy actualLon \<or> \<not> truthy guessLat \<or> \<not> truthy guessLon
           then Response 400 (JObj [(''error'', JStr ''Missing required coordinates'')])
           else
             (case (actualLat, actualLon, guessLat, guessLon) of
                (JNum aLat, JNum aLon, JNum gLat, JNum gLon) \<Rightarrow>
                  (let score = calculateScore aLat aLon gLat gLon
                   in case getWeatherData aLat aLon of
                        None \<Rightarrow> Response 500 (JObj [(''error'', JStr ''Failed to calculate score'')])
                      | Some weather \<Rightarrow>
                          Response 200 (JObj [(''score'', JNum (real_of_int score)),
                            (''actualLocation'', JObj [(''lat'', actualLat), (''lon'', actualLon)]),
                            (''weather'', weather)]))
              | _ \<Rightarrow> coerced actualLat actualLon guessLat guessLon))"

section \<open>Secure shuffle (gameService: secureRandomInt, shuffleArray)\<close>

text \<open>
  The bytes that \<open>crypto.randomBytes\<close> will deliver, in the order of delivery, are a
  sequence; a call takes its first \<open>n\<close> bytes and leaves the rest.
\<close>

type_synonym rng = "nat \<Rightarrow> 8 word"

definition randomBytes :: "nat \<Rightarrow> rng \<Rightarrow> 8 word list \<times> rng" where
  "randomBytes n r = (map r [0..<n], \<lambda>i. r (i + n))"

datatype js_error = RangeError | TypeError

text \<open>
  \<open>secureRandomInt(max)\<close>. For \<open>max = 0\<close> the logarithm is \<open>-Infinity\<close> and
  \<open>randomBytes\<close> raises a \<open>RangeError\<close>. Otherwise the division and the product are taken
  in the reals.
\<close>

definition secureRandomInt :: "nat \<Rightarrow> rng \<Rightarrow> js_error + (nat \<times> rng)" where
  "secureRandomInt max' r =
     (if max' = 0 then Inl RangeError
      else
        let range = max';
            bytesNeeded = nat \<lceil>log 2 (real range) / 8\<rceil>;
            maxValue = (256::nat) ^ bytesNeeded;
            (bytes, r') = randomBytes bytesNeeded r;
            randomValue = foldl (\<lambda>v b. v * 256 + unat b) 0 bytes
        in Inr (nat \<lfloor>(real randomValue / real maxValue) * real range\<rfloor>, r'))"

text \<open>
  A JavaScript array as a list of cells, \<open>None\<close> for \<open>undefined\<close> and for a hole: a read
  beyond the length gives \<open>undefined\<close>, a write beyond the length extends the array.
\<close>

definition js_get :: "'a option list \<Rightarrow> nat \<Rightarrow> 'a option" where
  "js_get xs k = (if k < length xs then xs ! k else None)"

definition js_set :: "'a option list \<Rightarrow> nat \<Rightarrow> 'a option \<Rightarrow> 'a option list" where
  "js_set xs k v =
     (if k < length xs then xs[k := v] else xs @ replicate (k - length xs) None @ [v])"

text \<open>\<open>[shuffled[i], shuffled[j]] = [shuffled[j], shuffled[i]]\<close>: both reads, then both writes.\<close>

definition swap_cells :: "'a option list \<Rightarrow> nat \<Rightarrow> nat \<Rightarrow> 'a option list" where
  "swap_cells shuffled i j =
     (let a = js_get shuffled j; b = js_get shuffled i
      in js_set (js_set shuffled i a) j b)"

text \<open>The loop \<open>for (i = length - 1; i > 0; i--)\<close>, by recursion on \<open>i\<close>.\<close>

fun shuffle_loop :: "nat \<Rightarrow> 'a option list \<Rightarrow> rng \<Rightarrow> js_error + ('a option list \<times> rng)" where
  "shuffle_loop 0 shuffled r = Inr (shuffled, r)"
| "shuffle_loop (Suc n) shuffled r =
     (case secureRandomInt (Suc n + 1) r of
        Inl e \<Rightarrow> Inl e
      | Inr (j, r') \<Rightarrow> shuffle_loop n (swap_cells shuffled (Suc n) j) r')"

definition shuffleArray :: "'a list \<Rightarrow> rng \<Rightarrow> js_error + ('a option list \<times> rng)" where
  "shuffleArray array r = shuffle_loop (length array - 1) (map Some array) r"

section \<open>Feed reader (gameService: fetchBalloonData)\<close>

text \<open>\<open>index.toString()\<close> of an array index: its decimal digits.\<close>

fun nat_toString :: "nat \<Rightarrow> string" where
  "nat_toString n =
     (if n < 10 then [''0123456789'' ! n]
      else nat_toString (n div 10) @ [''0123456789'' ! (n mod 10)])"

declare nat_toString.simps [simp del]

text \<open>
  What the body of the \<open>try\<close> computes from \<open>response.data\<close>: the entries of an object in
  the order of \<open>for ... in\<close> (none for \<open>null\<close>), the entries of an array with their
  indices, filtered by \<open>Boolean\<close>; nothing for any other value.
\<close>

definition balloons_of :: "jsval \<Rightarrow> BalloonData list" where
  "balloons_of data =
     (if typeof_object data \<and> \<not> isArray data then
        (case data of
           JObj kvs \<Rightarrow> List.map_filter (\<lambda>(key, item). extractCoordinates item key) kvs
         | _ \<Rightarrow> [])
      else if isArray data then
        (case data of
           JArr items \<Rightarrow>
             map the (filter (\<lambda>b. b \<noteq> None)
               (map (\<lambda>(index, item). extractCoordinates item (nat_toString index))
                    (zip [0..<length items] items)))
         | _ \<Rightarrow> [])
      else [])"

section \<open>Photo cache and photo resolution (gameService: loadCache, saveCache, isCacheValid, getPhotoForLocation)\<close>

record CachedPhoto =
  balloonId :: jsval
  photoUrl :: string
  photoAttribution :: string
  locationName :: string
  timestamp :: int

type_synonym PhotoCache = "string \<rightharpoonup> CachedPhoto"

text \<open>
  The file \<open>cache/photos.json\<close>: absent, present with a content that cannot be read or
  parsed, or holding a cache. \<open>JSON.stringify\<close> followed by \<open>JSON.parse\<close> gives back the
  strings, the integral time stamp and the identifier of an entry unchanged, so the file
  is modelled by the cache it holds.
\<close>

datatype cache_file = NoFile | Unreadable | Stored PhotoCache

text \<open>
  The world a request runs in: the cache file, the bytes \<open>crypto.randomBytes\<close> will
  deliver, and the rest (the clock, the remote services, the disk), of an arbitrary type.
\<close>

record 'x world =
  cache_file :: cache_file
  random_bytes :: rng
  ext :: 'x

text \<open>The result of \<open>fetchUnsplashPhoto\<close>, when it is not \<open>null\<close>.\<close>

record Photo =
  url :: string
  attribution :: string

text \<open>
  The environment. Each operation reads the rest of the world and returns it changed.
  \<^item> \<open>http_get_feed hour\<close> is \<open>axios.get\<close> on the feed file of that hour:
    \<open>response.data\<close>, or \<open>None\<close> when the request throws.
  \<^item> \<open>reverseGeocode\<close> and \<open>fetchUnsplashPhoto\<close> are the two functions of that name,
    each a request to a remote service with every failure caught: they are taken by
    their declared results, \<open>None\<close> for \<open>null\<close>.
  \<^item> \<open>date_now\<close> is \<open>Date.now()\<close>.
  \<^item> \<open>write_ok\<close> tells whether \<open>ensureCacheDir\<close> and \<open>fs.writeFileSync\<close> succeed; a
    write that fails leaves the file as it was.
  \<^item> \<open>toStr\<close> is JavaScript's conversion of a value that is not a string to a property
    key.
\<close>

record 'x env =
  http_get_feed :: "nat \<Rightarrow> 'x \<Rightarrow> jsval option \<times> 'x"
  reverseGeocode :: "real \<Rightarrow> real \<Rightarrow> 'x \<Rightarrow> string option \<times> 'x"
  fetchUnsplashPhoto :: "string \<Rightarrow> real \<Rightarrow> real \<Rightarrow> 'x \<Rightarrow> Photo option \<times> 'x"
  date_now :: "'x \<Rightarrow> int \<times> 'x"
  write_ok :: "'x \<Rightarrow> bool \<times> 'x"
  toStr :: "jsval \<Rightarrow> string"

text \<open>The loop over the hours 0 to 23, stopping at the first hour with a balloon.\<close>

fun fetch_hours :: "'x env \<Rightarrow> nat list \<Rightarrow> 'x \<Rightarrow> BalloonData list \<times> 'x" where
  "fetch_hours e [] x = ([], x)"
| "fetch_hours e (hour # hours) x =
     (case http_get_feed e hour x of
        (None, x') \<Rightarrow> fetch_hours e hours x'
      | (Some data, x') \<Rightarrow>
          let balloons = balloons_of data
          in if length balloons > 0 then (balloons, x') else fetch_hours e hours x')"

definition fetchBalloonData :: "'x env \<Rightarrow> 'x \<Rightarrow> BalloonData list \<times> 'x" where
  "fetchBalloonData e x = fetch_hours e [0..<24] x"

definition CACHE_DURATION :: int where
  "CACHE_DURATION = 24 * 60 * 60 * 1000"

definition loadCache :: "'x world \<Rightarrow> PhotoCache" where
  "loadCache w = (case cache_file w of Stored cache \<Rightarrow> cache | _ \<Rightarrow> Map.empty)"

definition saveCache :: "'x env \<Rightarrow> PhotoCache \<Rightarrow> 'x world \<Rightarrow> 'x world" where
  "saveCache e cache w =
     (case write_ok e (ext w) of
        (True, x') \<Rightarrow> w\<lparr>cache_file := Stored cache, ext := x'\<rparr>
      | (False, x') \<Rightarrow> w\<lparr>ext := x'\<rparr>)"

definition isCacheValid :: "'x env \<Rightarrow> CachedPhoto \<Rightarrow> 'x \<Rightarrow> bool \<times> 'x" where
  "isCacheValid e cached x =
     (case date_now e x of (now, x') \<Rightarrow> ((now - timestamp cached) < CACHE_DURATION, x'))"

text \<open>\<open>cache[balloonId]\<close>: the key of a string is the string.\<close>

definition propertyKey :: "'x env \<Rightarrow> jsval \<Rightarrow> string" where
  "propertyKey e v = (case v of JStr s \<Rightarrow> s | _ \<Rightarrow> toStr e v)"

text \<open>The result of \<open>getPhotoForLocation\<close>, when it is not \<open>null\<close>.\<close>

record LocatedPhoto =
  photo_url :: string
  photo_attribution :: string
  photo_locationName :: string
  photo_lat :: real
  photo_lon :: real
  photo_distance :: real

text \<open>
  \<open>getPhotoForLocation\<close>, in two parts: \<open>fetchNewPhoto\<close> is the second half of the
  function ("not in cache or cache expired"), \<open>getPhotoForLocation\<close> the cache check
  that precedes it. The log line of either cached branch reads the clock once more. An
  empty location name is falsy and is a miss.
\<close>

definition fetchNewPhoto ::
  "'x env \<Rightarrow> PhotoCache \<Rightarrow> jsval \<Rightarrow> real \<Rightarrow> real \<Rightarrow> 'x world \<Rightarrow> LocatedPhoto option \<times> 'x world"
where
  "fetchNewPhoto e cache ident lat' lon' w =
     (case reverseGeocode e lat' lon' (ext w) of
        (None, x1) \<Rightarrow> (None, w\<lparr>ext := x1\<rparr>)
      | (Some name, x1) \<Rightarrow>
          if name = [] then (None, w\<lparr>ext := x1\<rparr>)
          else
            (case fetchUnsplashPhoto e name lat' lon' x1 of
               (None, x2) \<Rightarrow> (None, w\<lparr>ext := x2\<rparr>)
             | (Some photo, x2) \<Rightarrow>
                 (case date_now e x2 of
                    (now, x3) \<Rightarrow>
                      let cachedPhoto = \<lparr> balloonId = ident, photoUrl = url photo,
                                           photoAttribution = attribution photo,
                                           locationName = name, timestamp = now \<rparr>;
                          cache' = cache(propertyKey e ident \<mapsto> cachedPhoto);
                          w' = saveCache e cache' (w\<lparr>ext := x3\<rparr>)
                      in (Some \<lparr> photo_url = url photo, photo_attribution = attribution photo,
                                  photo_locationName = name, photo_lat = lat', photo_lon = lon',
                                  photo_distance = 0 \<rparr>, w'))))"

definition getPhotoForLocation ::
  "'x env \<Rightarrow> jsval \<Rightarrow> real \<Rightarrow> real \<Rightarrow> 'x world \<Rightarrow> LocatedPhoto option \<times> 'x world"
where
  "getPhotoForLocation e ident lat' lon' w =
     (let cache = loadCache w
      in case cache (propertyKey e ident) of
           Some cached \<Rightarrow>
             (case isCacheValid e cached (ext w) of
                (valid, x1) \<Rightarrow>
                  (case date_now e x1 of
                     (logged, x2) \<Rightarrow>
                       if valid
                       then (Some \<lparr> photo_url = photoUrl cached,
                                     photo_attribution = photoAttribution cached,
                                     photo_locationName = locationName cached,
                                     photo_lat = lat', photo_lon = lon',
                                     photo_distance = 0 \<rparr>, w\<lparr>ext := x2\<rparr>)
                       else fetchNewPhoto e cache ident lat' lon' (w\<lparr>ext := x2\<rparr>)))
         | None \<Rightarrow> fetchNewPhoto e cache ident lat' lon' w)"

section \<open>Round assembly (gameService: createGameRound)\<close>

record GameRound =
  balloonLat :: real
  balloonLon :: real
  balloonId :: jsval
  photoUrl :: string
  photoAttribution :: string
  locationName :: string
  photoLat :: real
  photoLon :: real
  distanceKm :: real

datatype game_error =
    NoBalloonData   \<comment> \<open>'No balloon data available. The WindBorne API might be down.'\<close>
  | NoPhotos        \<comment> \<open>'Could not find any photos for the selected balloons. Please try again!'\<close>
  | Thrown js_error

text \<open>
  \<open>shuffled.slice(0, end)\<close>: a negative \<open>end\<close> counts from the end of the array.
\<close>

definition slice0 :: "'a list \<Rightarrow> int \<Rightarrow> 'a list" where
  "slice0 xs end' =
     (if end' < 0 then take (nat (int (length xs) + end')) xs else take (nat end') xs)"

text \<open>
  The loop \<open>for (i = 0; i < selectedBalloons.length && rounds.length < numRounds; i++)\<close>,
  on the balloons from index \<open>i\<close> on. Reading a field of an \<open>undefined\<close> cell throws.
\<close>

fun rounds_loop ::
  "'x env \<Rightarrow> int \<Rightarrow> BalloonData option list \<Rightarrow> GameRound list \<Rightarrow> 'x world
     \<Rightarrow> (js_error + GameRound list) \<times> 'x world"
where
  "rounds_loop e numRounds [] rounds w = (Inr rounds, w)"
| "rounds_loop e numRounds (cell # rest) rounds w =
     (if \<not> int (length rounds) < numRounds then (Inr rounds, w)
      else
        (case cell of
           None \<Rightarrow> (Inl TypeError, w)
         | Some balloon \<Rightarrow>
             (case getPhotoForLocation e (id' balloon) (lat balloon) (lon balloon) w of
                (Some photo, w') \<Rightarrow>
                  rounds_loop e numRounds rest
                    (rounds @ [\<lparr> balloonLat = lat balloon, balloonLon = lon balloon,
                                 balloonId = id' balloon,
                                 photoUrl = photo_url photo,
                                 photoAttribution = photo_attribution photo,
                                 locationName = photo_locationName photo,
                                 photoLat = photo_lat photo, photoLon = photo_lon photo,
                                 distanceKm = real_of_int (round (photo_distance photo)) \<rparr>]) w'
              | (None, w') \<Rightarrow> rounds_loop e numRounds rest rounds w')))"

definition createGameRound ::
  "'x env \<Rightarrow> int \<Rightarrow> 'x world \<Rightarrow> (game_error + GameRound list) \<times> 'x world"
where
  "createGameRound e numRounds w =
     (case fetchBalloonData e (ext w) of
        (balloons, x1) \<Rightarrow>
          if length balloons = 0 then (Inl NoBalloonData, w\<lparr>ext := x1\<rparr>)
          else
            (case shuffleArray balloons (random_bytes w) of
               Inl err \<Rightarrow> (Inl (Thrown err), w\<lparr>ext := x1\<rparr>)
             | Inr (shuffledBalloons, r') \<Rightarrow>
                 let selectedBalloons =
                       slice0 shuffledBalloons (min (numRounds * 3) (int (length shuffledBalloons)))
                 in case rounds_loop e numRounds selectedBalloons []
                           (w\<lparr>random_bytes := r', ext := x1\<rparr>) of
                      (Inl err, w') \<Rightarrow> (Inl (Thrown err), w')
                    | (Inr rounds, w') \<Rightarrow>
                        if length rounds = 0 then (Inl NoPhotos, w') else (Inr rounds, w')))"


text \<open>What the properties below say of a round: no distance, and the photo at the balloon.\<close>

definition round_ok :: "GameRound \<Rightarrow> bool" where
  "round_ok r \<longleftrightarrow> distanceKm r = 0 \<and> photoLat r = balloonLat r \<and> photoLon r = balloonLon r"

section \<open>An example environment\<close>

text \<open>
  A feed with one balloon at hour 0, a geocoder that finds a name or not, a photo service
  that always answers, a clock that advances by one at each reading, a disk that works.
\<close>

definition example_env :: "bool \<Rightarrow> nat env" where
  "example_env hit =
     \<lparr> http_get_feed = (\<lambda>hour x. (if hour = 0 then Some (JArr [JArr [JNum 45, JNum (- 122), JNum 1000]]) else None, x)),
       reverseGeocode = (\<lambda>la lo x. (if hit then Some ''Oregon'' else None, x)),
       fetchUnsplashPhoto = (\<lambda>name la lo x. (Some \<lparr> url = ''https://images.example/1'', attribution = ''Photo by A on Unsplash'' \<rparr>, x)),
       date_now = (\<lambda>x. (int x, Suc x)),
       write_ok = (\<lambda>x. (True, x)),
       toStr = (\<lambda>v. []) \<rparr>"

definition example_world :: "nat world" where
  "example_world = \<lparr> cache_file = NoFile, random_bytes = (\<lambda>i. 0), ext = 0 \<rparr>"

definition example_balloon :: BalloonData where
  "example_balloon = \<lparr> lat = 45, lon = - 122, alt = JNum 1000, id' = JStr ''0'' \<rparr>"

definition example_entry :: CachedPhoto where
  "example_entry = \<lparr> CachedPhoto.balloonId = JStr ''0'',
             CachedPhoto.photoUrl = ''https://images.example/1'',
             CachedPhoto.photoAttribution = ''Photo by A on Unsplash'',
             CachedPhoto.locationName = ''Oregon'', timestamp = 0 \<rparr>"

definition example_cached_world :: "nat \<Rightarrow> nat world" where
  "example_cached_world clock =
     \<lparr> cache_file = Stored [''0'' \<mapsto> example_entry], random_bytes = (\<lambda>i. 0), ext = clock \<rparr>"

section \<open>Properties of the distance\<close>









section \<open>Properties of the score\<close>











section \<open>Properties of the extraction and of the guess handler\<close>

lemma extractCoordinates_example_array: "extractCoordinates (JArr [JNum 45, JNum (- 122), JNum 1000]) ''0'' =
   Some \<lparr> lat = 45, lon = - 122, alt = JNum 1000, id' = JStr ''0'' \<rparr>"
  by (simp add: extractCoordinates_def)

lemma extractCoordinates_example_invalid: "extractCoordinates (JArr [JNum 91, JNum 0]) ''0'' = None"
  by (simp add: extractCoordinates_def js_or_def)

lemma extractCoordinates_example_object: "extractCoordinates (JObj [(''latitude'', JNum 10), (''longitude'', JNum 20)]) ''0'' =
   Some \<lparr> lat = 10, lon = 20, alt = JUndefined, id' = JStr ''0'' \<rparr>"
  by (simp add: extractCoordinates_def js_or_def)

text \<open>
  Claim C1. Extraction should yield an observation with the entry's coordinates whenever the
  latitude is a number in \<open>[-90, 90]\<close> and the longitude a number in \<open>[-180, 180]\<close>.
  The array branch does; the object branch reads its fields through \<open>||\<close>, which
  passes over the number 0: the object \<open>{"lat": 0, "lon": 20}\<close> yields no observation,
  the array \<open>[0, 20]\<close> with the same coordinates yields one.
\<close>

theorem extractCoordinates_object_drops_zero: "extractCoordinates (JObj [(''lat'', JNum 0), (''lon'', JNum 20)]) ''7'' = None
  \<and> extractCoordinates (JArr [JNum 0, JNum 20]) ''7'' = Some \<lparr> lat = 0, lon = 20, alt = JUndefined, id' = JStr ''7'' \<rparr>"
  by (simp add: extractCoordinates_def js_or_def)

lemma extractCoordinates_array: "extractCoordinates (JArr (JNum la # JNum lo # rest)) ident =
   (if - 90 \<le> la \<and> la \<le> 90 \<and> - 180 \<le> lo \<and> lo \<le> 180
    then Some \<lparr> lat = la, lon = lo, alt = (case rest of JNum a # _ \<Rightarrow> JNum a | _ \<Rightarrow> JUndefined), id' = JStr ident \<rparr>
    else None)"
  by (auto simp add: extractCoordinates_def js_or_def split: list.splits jsval.splits)

text \<open>
  Claim C10. The guess handler answers 400 "Missing required coordinates" whenever one of
  \<open>actualLat\<close>, \<open>actualLon\<close>, \<open>guessLat\<close>, \<open>guessLon\<close> is absent from the
  body or is the number 0: a position on the equator or on the prime meridian is rejected,
  not scored.
\<close>

theorem guess_rejects_missing_or_zero:
  assumes "k \<in> {''actualLat'', ''actualLon'', ''guessLat'', ''guessLon''}"
    and "map_of kvs k = None \<or> map_of kvs k = Some (JNum 0)"
  shows "guess_handler getWeatherData coerced (JObj kvs) =
           Response 400 (JObj [(''error'', JStr ''Missing required coordinates'')])"
proof -
  have "\<not> truthy (getProp (JObj kvs) k)" using assms(2) by auto
  with assms(1) show ?thesis
    by (auto simp add: guess_handler_def Let_def)
qed

theorem guess_rejects_missing_or_zero_witness:
  "guess_handler (\<lambda>a b. Some JNull) (\<lambda>a b c d. Response 200 JNull)
      (JObj [(''actualLat'', JNum 10), (''actualLon'', JNum 20), (''guessLat'', JNum 0), (''guessLon'', JNum 30)]) =
     Response 400 (JObj [(''error'', JStr ''Missing required coordinates'')])
   \<and> guess_handler (\<lambda>a b. Some JNull) (\<lambda>a b c d. Response 200 JNull)
      (JObj [(''actualLat'', JNum 10), (''actualLon'', JNum 20), (''guessLat'', JNum 5)]) =
     Response 400 (JObj [(''error'', JStr ''Missing required coordinates'')])"
  using guess_rejects_missing_or_zero [of "''guessLat''" "[(''actualLat'', JNum 10), (''actualLon'', JNum 20), (''guessLat'', JNum 0), (''guessLon'', JNum 30)]"]
    guess_rejects_missing_or_zero [of "''guessLon''" "[(''actualLat'', JNum 10), (''actualLon'', JNum 20), (''guessLat'', JNum 5)]"]
  by simp

section \<open>Properties of the shuffle\<close>

lemma randomValue_bound:
  "foldl (\<lambda>v b. v * 256 + unat (b :: 8 word)) v bytes < (v + 1) * 256 ^ length bytes"
proof (induction bytes arbitrary: v)
  case Nil
  show ?case by simp
next
  case (Cons b bytes)
  have "unat b < 2 ^ LENGTH(8)" by (rule unsigned_less)
  then have "unat b < 256" by simp
  then have "v * 256 + unat b + 1 \<le> (v + 1) * 256" by simp
  then have "(v * 256 + unat b + 1) * 256 ^ length bytes \<le> (v + 1) * 256 * 256 ^ length bytes"
    by (rule mult_le_mono1)
  moreover have "foldl (\<lambda>v b. v * 256 + unat b) (v * 256 + unat b) bytes
      < (v * 256 + unat b + 1) * 256 ^ length bytes"
    by (rule Cons.IH)
  ultimately have "foldl (\<lambda>v b. v * 256 + unat b) (v * 256 + unat b) bytes
      < (v + 1) * 256 * 256 ^ length bytes" by (rule less_le_trans [rotated])
  moreover have "(v + 1) * 256 * 256 ^ length bytes = (v + 1) * 256 ^ length (b # bytes)"
    by (simp add: algebra_simps)
  ultimately show ?case by (simp only: foldl_Cons)
qed

lemma secureRandomInt_range:
  assumes "0 < max'"
  shows "\<exists>j r'. secureRandomInt max' r = Inr (j, r') \<and> j < max'"
proof -
  define n where "n = nat \<lceil>log 2 (real max') / 8\<rceil>"
  define rv where "rv = foldl (\<lambda>v b. v * 256 + unat b) 0 (map r [0..<n])"
  have "rv < (0 + 1) * 256 ^ length (map r [0..<n])"
    unfolding rv_def by (rule randomValue_bound)
  then have lt: "rv < 256 ^ n" by simp
  then have "real rv < real ((256::nat) ^ n)" by (simp only: of_nat_less_iff)
  then have "real rv / real ((256::nat) ^ n) < 1" by simp
  moreover have "0 \<le> real rv / real ((256::nat) ^ n)" by simp
  ultimately have b: "real rv / real ((256::nat) ^ n) * real max' < real max'"
    "0 \<le> real rv / real ((256::nat) ^ n) * real max'"
  proof -
    have p: "0 < real max'" using assms by simp
    from \<open>real rv / real ((256::nat) ^ n) < 1\<close> p
    have "real rv / real ((256::nat) ^ n) * real max' < 1 * real max'"
      by (rule mult_strict_right_mono)
    then show "real rv / real ((256::nat) ^ n) * real max' < real max'" by simp
    show "0 \<le> real rv / real ((256::nat) ^ n) * real max'" by simp
  qed
  then have "\<lfloor>real rv / real ((256::nat) ^ n) * real max'\<rfloor> < int max'"
    by (simp add: floor_less_iff)
  then have "nat \<lfloor>real rv / real ((256::nat) ^ n) * real max'\<rfloor> < max'"
    using assms by linarith
  then show ?thesis
    using assms by (simp add: secureRandomInt_def randomBytes_def Let_def n_def rv_def)
qed

lemma swap_cells_in_range:
  assumes "i < length s" "j < length s"
  shows "length (swap_cells s i j) = length s" "mset (swap_cells s i j) = mset s"
proof -
  have e: "swap_cells s i j = s[i := s ! j, j := s ! i]"
    using assms by (simp add: swap_cells_def js_get_def js_set_def Let_def)
  show "length (swap_cells s i j) = length s" by (simp add: e)
  show "mset (swap_cells s i j) = mset s"
    unfolding e using mset_swap [OF assms(2) assms(1)] .
qed

lemma shuffle_loop_perm:
  assumes "n < length s \<or> n = 0"
  shows "\<exists>s' r'. shuffle_loop n s r = Inr (s', r') \<and> mset s' = mset s \<and> length s' = length s"
  using assms
proof (induction n arbitrary: s r)
  case 0
  show ?case by simp
next
  case (Suc n)
  then have i: "Suc n < length s" by simp
  obtain j r1 where j: "secureRandomInt (Suc n + 1) r = Inr (j, r1)" "j < Suc n + 1"
    using secureRandomInt_range [of "Suc n + 1" r] by auto
  then have jl: "j < length s" using i by simp
  note sw = swap_cells_in_range [OF i jl]
  have "n < length (swap_cells s (Suc n) j) \<or> n = 0" using i sw(1) by simp
  from Suc.IH [OF this, of r1] obtain s' r' where
    "shuffle_loop n (swap_cells s (Suc n) j) r1 = Inr (s', r')"
    "mset s' = mset (swap_cells s (Suc n) j)" "length s' = length (swap_cells s (Suc n) j)"
    by blast
  with j(1) sw show ?case by simp
qed

lemma shuffleArray_perm:
  "\<exists>ys r'. shuffleArray xs r = Inr (map Some ys, r') \<and> mset ys = mset xs \<and> length ys = length xs"
proof -
  have "length xs - 1 < length (map Some xs) \<or> length xs - 1 = 0"
    by (cases xs) simp_all
  from shuffle_loop_perm [OF this, of r] obtain s' r' where
    s: "shuffle_loop (length xs - 1) (map Some xs) r = Inr (s', r')"
       "mset s' = mset (map Some xs)" "length s' = length xs"
    by auto
  have "set s' = Some ` set xs" using s(2) by (metis mset_eq_setD set_map)
  then have "\<forall>c \<in> set s'. c \<noteq> None" by auto
  then have m: "map Some (map the s') = s'" by (induction s') auto
  have "mset (map the s') = image_mset the (mset (map Some xs))"
    using s(2) by (simp only: mset_map)
  also have "\<dots> = mset xs" by (simp add: multiset.map_comp comp_def)
  finally have "mset (map the s') = mset xs" .
  with s m show ?thesis
    by (intro exI [of _ "map the s'"] exI [of _ r']) (simp add: shuffleArray_def)
qed

text \<open>
  Claim C4. For every input array and every sequence of random bytes, \<open>shuffleArray\<close>
  returns a permutation of its input: no cell is \<open>undefined\<close>, the elements are the same
  multiset and the length is the same. For every \<open>i \<ge> 1\<close>, \<open>secureRandomInt (i + 1)\<close>
  returns an index in \<open>[0, i]\<close>.
\<close>

theorem shuffleArray_permutation:
  "(\<exists>ys r'. shuffleArray xs r = Inr (map Some ys, r') \<and> mset ys = mset xs \<and> length ys = length xs)
   \<and> (\<exists>j r'. secureRandomInt (Suc (Suc i)) r = Inr (j, r') \<and> j \<le> Suc i)"
proof -
  obtain j r' where "secureRandomInt (Suc (Suc i)) r = Inr (j, r')" "j < Suc (Suc i)"
    using secureRandomInt_range [of "Suc (Suc i)" r] by auto
  then have "\<exists>j r'. secureRandomInt (Suc (Suc i)) r = Inr (j, r') \<and> j \<le> Suc i" by auto
  with shuffleArray_perm [of xs r] show ?thesis by blast
qed

section \<open>Properties of the photo resolution and of the round assembly\<close>

lemma fetchNewPhoto_result:
  assumes "fetchNewPhoto e cache ident la lo w = (Some p, w')"
  shows "photo_distance p = 0 \<and> photo_lat p = la \<and> photo_lon p = lo"
  using assms
  by (auto simp add: fetchNewPhoto_def Let_def split: prod.splits option.splits if_splits)

lemma getPhotoForLocation_result:
  assumes "getPhotoForLocation e ident la lo w = (Some p, w')"
  shows "photo_distance p = 0 \<and> photo_lat p = la \<and> photo_lon p = lo"
  using assms
  by (auto simp add: getPhotoForLocation_def Let_def
      split: prod.splits option.splits if_splits dest: fetchNewPhoto_result)

lemma rounds_loop_inv:
  assumes "rounds_loop e n cells rounds w = (Inr rs, w')"
    and "\<forall>r \<in> set rounds. round_ok r"
  shows "\<forall>r \<in> set rs. round_ok r"
  using assms
proof (induction cells arbitrary: rounds w)
  case Nil
  then show ?case by simp
next
  case (Cons cell rest)
  show ?case
  proof (cases "int (length rounds) < n")
    case False
    with Cons.prems show ?thesis by simp
  next
    case True
    show ?thesis
    proof (cases cell)
      case None
      with True Cons.prems show ?thesis by simp
    next
      case (Some b)
      obtain res w1 where g: "getPhotoForLocation e (id' b) (lat b) (lon b) w = (res, w1)"
        by (cases "getPhotoForLocation e (id' b) (lat b) (lon b) w")
      show ?thesis
      proof (cases res)
        case None
        with g Some True Cons.prems(1) have "rounds_loop e n rest rounds w1 = (Inr rs, w')" by simp
        from Cons.IH [OF this Cons.prems(2)] show ?thesis .
      next
        case (Some p)
        note p = getPhotoForLocation_result [OF g [unfolded Some]]
        define r where "r = \<lparr> balloonLat = lat b, balloonLon = lon b,
                                 balloonId = id' b,
                                 photoUrl = photo_url p,
                                 photoAttribution = photo_attribution p,
                                 locationName = photo_locationName p,
                                 photoLat = photo_lat p, photoLon = photo_lon p,
                                 distanceKm = real_of_int (round (photo_distance p)) \<rparr>"
        have ok: "round_ok r" using p by (simp add: r_def round_ok_def)
        from g Some \<open>cell = Some b\<close> True Cons.prems(1)
        have "rounds_loop e n rest (rounds @ [r]) w1 = (Inr rs, w')" by (simp add: r_def)
        moreover have "\<forall>r \<in> set (rounds @ [r]). round_ok r" using ok Cons.prems(2) by simp
        ultimately show ?thesis by (rule Cons.IH)
      qed
    qed
  qed
qed



lemma example_feed:
  "fetchBalloonData (example_env hit) (ext example_world) = ([example_balloon], 0)"
  by (simp add: fetchBalloonData_def upt_conv_Cons example_env_def example_world_def
      balloons_of_def extractCoordinates_def nat_toString.simps [of 0] example_balloon_def)

lemma example_shuffle:
  "shuffleArray [example_balloon] r = Inr ([Some example_balloon], r)"
  by (simp add: shuffleArray_def)

lemma example_hit:
  "createGameRound (example_env True) 1 example_world =
     (Inr [\<lparr> balloonLat = 45, balloonLon = - 122, balloonId = JStr ''0'',
             photoUrl = ''https://images.example/1'',
             photoAttribution = ''Photo by A on Unsplash'',
             locationName = ''Oregon'', photoLat = 45, photoLon = - 122, distanceKm = 0 \<rparr>],
      \<lparr> cache_file = Stored [''0'' \<mapsto> \<lparr> CachedPhoto.balloonId = JStr ''0'',
             CachedPhoto.photoUrl = ''https://images.example/1'',
             CachedPhoto.photoAttribution = ''Photo by A on Unsplash'',
             CachedPhoto.locationName = ''Oregon'', timestamp = 0 \<rparr>],
        random_bytes = (\<lambda>i. 0), ext = 1 \<rparr>)"
  unfolding createGameRound_def example_feed
  by (simp add: example_shuffle slice0_def)
     (simp add: example_env_def example_world_def example_balloon_def getPhotoForLocation_def
        loadCache_def fetchNewPhoto_def propertyKey_def saveCache_def Let_def)







lemma example_feed_cached:
  "fetchBalloonData (example_env hit) (ext (example_cached_world clock)) = ([example_balloon], clock)"
  by (simp add: fetchBalloonData_def upt_conv_Cons example_env_def example_cached_world_def
      balloons_of_def extractCoordinates_def nat_toString.simps [of 0] example_balloon_def)

lemma example_cache_hit:
  "fst (createGameRound (example_env False) 1 (example_cached_world 5)) =
     Inr [\<lparr> balloonLat = 45, balloonLon = - 122, balloonId = JStr ''0'',
             photoUrl = ''https://images.example/1'',
             photoAttribution = ''Photo by A on Unsplash'',
             locationName = ''Oregon'', photoLat = 45, photoLon = - 122, distanceKm = 0 \<rparr>]"
  unfolding createGameRound_def example_feed_cached
  by (simp add: example_shuffle slice0_def)
     (simp add: example_env_def example_cached_world_def example_balloon_def getPhotoForLocation_def
        loadCache_def isCacheValid_def CACHE_DURATION_def example_entry_def propertyKey_def Let_def)

lemma createGameRound_rounds_ok:
  assumes "fst (createGameRound e numRounds w) = Inr rounds" and "r \<in> set rounds"
  shows "round_ok r"
proof -
  obtain balloons x1 where f: "fetchBalloonData e (ext w) = (balloons, x1)"
    by (cases "fetchBalloonData e (ext w)")
  from assms(1) f have ne: "balloons \<noteq> []"
    by (auto simp add: createGameRound_def)
  obtain cells r' where sh: "shuffleArray balloons (random_bytes w) = Inr (cells, r')"
    using shuffleArray_perm [of balloons "random_bytes w"] by blast
  define sel where "sel = slice0 cells (min (numRounds * 3) (int (length cells)))"
  obtain res w' where l: "rounds_loop e numRounds sel [] (w\<lparr>random_bytes := r', ext := x1\<rparr>) = (res, w')"
    by (cases "rounds_loop e numRounds sel [] (w\<lparr>random_bytes := r', ext := x1\<rparr>)")
  from assms(1) f ne sh l have "res = Inr rounds"
    by (auto simp add: createGameRound_def Let_def sel_def [symmetric] split: sum.splits if_splits)
  with l have "rounds_loop e numRounds sel [] (w\<lparr>random_bytes := r', ext := x1\<rparr>) = (Inr rounds, w')"
    by simp
  from rounds_loop_inv [OF this] assms(2) show ?thesis by simp
qed

text \<open>
  Claim C6. Every round that \<open>createGameRound\<close> returns, from a cached entry or from a
  fresh lookup, has \<open>distanceKm = 0\<close>.
\<close>

theorem createGameRound_distanceKm_zero:
  assumes "fst (createGameRound e numRounds w) = Inr rounds" and "r \<in> set rounds"
  shows "distanceKm r = 0"
  using createGameRound_rounds_ok [OF assms] by (simp add: round_ok_def)

theorem createGameRound_distanceKm_zero_witness:
  "\<exists>r. fst (createGameRound (example_env True) 1 example_world) = Inr [r] \<and> distanceKm r = 0"
proof -
  obtain r where r: "fst (createGameRound (example_env True) 1 example_world) = Inr [r]"
    by (simp add: example_hit)
  have "r \<in> set [r]" by simp
  from createGameRound_distanceKm_zero [OF r this] r show ?thesis by blast
qed

text \<open>
  Claim C9. In every round that \<open>createGameRound\<close> returns, \<open>photoLat\<close> is
  \<open>balloonLat\<close> and \<open>photoLon\<close> is \<open>balloonLon\<close>.
\<close>

theorem createGameRound_photo_at_balloon:
  assumes "fst (createGameRound e numRounds w) = Inr rounds" and "r \<in> set rounds"
  shows "photoLat r = balloonLat r \<and> photoLon r = balloonLon r"
  using createGameRound_rounds_ok [OF assms] by (simp add: round_ok_def)

theorem createGameRound_photo_at_balloon_witness:
  "\<exists>r. fst (createGameRound (example_env False) 1 (example_cached_world 5)) = Inr [r]
     \<and> photoLat r = balloonLat r \<and> photoLon r = balloonLon r \<and> balloonLat r = 45"
proof -
  obtain r where r: "fst (createGameRound (example_env False) 1 (example_cached_world 5)) = Inr [r]"
    "balloonLat r = 45"
    by (simp add: example_cache_hit)
  have "r \<in> set [r]" by simp
  from createGameRound_photo_at_balloon [OF r(1) this] r show ?thesis by blast
qed





end
